theory Spec2Isabelle
  imports Main
begin

section \<open>The designer plugin of the menu widget (menuplugin.cpp)\<close>

text \<open>
  The file implements the class \<open>menuPlugin\<close>, a custom-widget plugin of a form designer.
  The object has one data member of its own, the flag \<open>m_initialized\<close>, and the parent
  pointer it hands to its base class \<open>QObject\<close>. One method writes the flag, one method
  allocates a widget, the others return literals.
\<close>

subsection \<open>Values of the framework\<close>

text \<open>
  A pointer is an address or the null pointer (\<open>None\<close>). A \<open>QString\<close> built from a
  \<open>QLatin1String\<close> literal holds the characters of the literal.
\<close>

type_synonym addr = nat
type_synonym QObject_ptr = "addr option"
type_synonym QWidget_ptr = "addr option"
type_synonym core_ptr = "addr option"
type_synonym QString = string

text \<open>
  An icon is either the null icon, which is what the default constructor \<open>QIcon()\<close>
  makes, or an icon loaded from somewhere.
\<close>

datatype QIcon = NullIcon | FileIcon QString

definition QIcon_default :: QIcon where
  "QIcon_default = NullIcon"

definition isNull :: "QIcon \<Rightarrow> bool" where
  "isNull i = (case i of NullIcon \<Rightarrow> True | FileIcon f \<Rightarrow> False)"

subsection \<open>Widgets on the heap\<close>

text \<open>
  A widget object carries the name of its class and the pointer to its parent widget.
  The heap is the list of the objects allocated so far; the address of an object is its
  position, so \<open>new\<close> returns an address no earlier object has. Memory is unbounded.
\<close>

record QWidget =
  widget_class :: string
  widget_parent :: QWidget_ptr

type_synonym heap = "QWidget list"

definition op_new :: "QWidget \<Rightarrow> heap \<Rightarrow> addr \<times> heap" where
  "op_new obj h = (length h, h @ [obj])"

definition deref :: "heap \<Rightarrow> QWidget_ptr \<Rightarrow> QWidget option" where
  "deref h p = (case p of None \<Rightarrow> None
                | Some a \<Rightarrow> (if a < length h then Some (h ! a) else None))"

text \<open>
  Modelled from the spec: the constructor \<open>menu::menu(QWidget *parent)\<close> of the wrapped
  widget class, declared in menu.h, which is not among the sources. The spec describes the
  result of the factory method as a new instance of the wrapped widget type, parented to
  the caller-supplied container.
\<close>

definition menu :: "QWidget_ptr \<Rightarrow> QWidget" where
  "menu parent = \<lparr>widget_class = ''menu'', widget_parent = parent\<rparr>"

subsection \<open>The plugin object\<close>

record menuPlugin =
  qobject_parent :: QObject_ptr
  m_initialized :: bool

text \<open>
  \<open>menuPlugin::menuPlugin(QObject *parent) : QObject(parent) {}\<close>. The body is empty, so
  the flag starts with the default member initializer written in menuplugin.h. The header
  is not among the sources; the initializer is the parameter \<open>init\<close>.
\<close>

definition menuPlugin_ctor :: "bool \<Rightarrow> QObject_ptr \<Rightarrow> menuPlugin" where
  "menuPlugin_ctor init parent = \<lparr>qobject_parent = parent, m_initialized = init\<rparr>"

text \<open>
  \<open>initialize\<close> returns at once when the flag is set, and sets it otherwise. The
  parameter is unnamed in the source (its name is commented out).
\<close>

definition initialize :: "core_ptr \<Rightarrow> menuPlugin \<Rightarrow> menuPlugin" where
  "initialize core p = (if m_initialized p then p else p\<lparr>m_initialized := True\<rparr>)"

definition isInitialized :: "menuPlugin \<Rightarrow> bool" where
  "isInitialized p = m_initialized p"

text \<open>The constant member functions: each one returns a literal.\<close>

definition name :: "menuPlugin \<Rightarrow> QString" where
  "name p = ''menu''"

definition group :: "menuPlugin \<Rightarrow> QString" where
  "group p = ''''"

definition icon :: "menuPlugin \<Rightarrow> QIcon" where
  "icon p = QIcon_default"

definition toolTip :: "menuPlugin \<Rightarrow> QString" where
  "toolTip p = ''''"

definition whatsThis :: "menuPlugin \<Rightarrow> QString" where
  "whatsThis p = ''''"

definition isContainer :: "menuPlugin \<Rightarrow> bool" where
  "isContainer p = False"

text \<open>The raw string literal of \<open>domXml\<close> spans two lines: it holds one line feed.\<close>

definition domXml :: "menuPlugin \<Rightarrow> QString" where
  \<open>domXml p = ''<widget class="menu" name="menu">\<newline></widget>''\<close>

definition includeFile :: "menuPlugin \<Rightarrow> QString" where
  "includeFile p = ''menu.h''"

subsection \<open>The plugin and the heap together\<close>

text \<open>
  \<open>createWidget\<close> is the one method that allocates: it runs \<open>new menu(parent)\<close> and
  returns the pointer. It is not a constant member function, so it is given the whole
  program state, the plugin object and the heap, and returns the state it leaves.
\<close>

record world =
  plugin :: menuPlugin
  heap :: heap

definition createWidget :: "QWidget_ptr \<Rightarrow> world \<Rightarrow> QWidget_ptr \<times> world" where
  "createWidget parent w =
     (case op_new (menu parent) (heap w) of (a, h) \<Rightarrow> (Some a, w\<lparr>heap := h\<rparr>))"

text \<open>
  A call of a method of the plugin by the host, with its arguments, and the value the
  call returns. \<open>invoke\<close> performs one call on a state; \<open>run\<close> performs a sequence of
  calls from left to right.
\<close>

datatype call =
    Initialize core_ptr
  | IsInitialized
  | CreateWidget QWidget_ptr
  | Name
  | Group
  | Icon
  | ToolTip
  | WhatsThis
  | IsContainer
  | DomXml
  | IncludeFile

datatype ret =
    RVoid
  | RBool bool
  | RPtr QWidget_ptr
  | RString QString
  | RIcon QIcon

fun invoke :: "call \<Rightarrow> world \<Rightarrow> ret \<times> world" where
  "invoke (Initialize core) w = (RVoid, w\<lparr>plugin := initialize core (plugin w)\<rparr>)"
| "invoke IsInitialized w = (RBool (isInitialized (plugin w)), w)"
| "invoke (CreateWidget parent) w =
     (case createWidget parent w of (q, w') \<Rightarrow> (RPtr q, w'))"
| "invoke Name w = (RString (name (plugin w)), w)"
| "invoke Group w = (RString (group (plugin w)), w)"
| "invoke Icon w = (RIcon (icon (plugin w)), w)"
| "invoke ToolTip w = (RString (toolTip (plugin w)), w)"
| "invoke WhatsThis w = (RString (whatsThis (plugin w)), w)"
| "invoke IsContainer w = (RBool (isContainer (plugin w)), w)"
| "invoke DomXml w = (RString (domXml (plugin w)), w)"
| "invoke IncludeFile w = (RString (includeFile (plugin w)), w)"

primrec run :: "call list \<Rightarrow> world \<Rightarrow> world" where
  "run [] w = w"
| "run (c # cs) w = run cs (snd (invoke c w))"

text \<open>
  The serialisation of an XML element with attributes and a body, used to read the
  literal of \<open>domXml\<close>.
\<close>

definition xml_attribute :: "string \<times> string \<Rightarrow> string" where
  \<open>xml_attribute kv = '' '' @ fst kv @ ''="'' @ snd kv @ ''"''\<close>

definition xml_element :: "string \<Rightarrow> (string \<times> string) list \<Rightarrow> string \<Rightarrow> string" where
  "xml_element tag attrs body =
     ''<'' @ tag @ concat (map xml_attribute attrs) @ ''>'' @ body @ ''</'' @ tag @ ''>''"

section \<open>Properties\<close>

subsection \<open>Auxiliary facts\<close>

lemma initialize_sets_flag: "m_initialized (initialize core p)"
  by (simp add: initialize_def)

lemma initialize_when_set: "m_initialized p \<Longrightarrow> initialize core p = p"
  by (simp add: initialize_def)

lemma invoke_keeps_flag:
  "m_initialized (plugin w) \<Longrightarrow> m_initialized (plugin (snd (invoke c w)))"
  by (cases c) (simp_all add: initialize_def createWidget_def op_new_def)

lemma run_keeps_flag:
  "m_initialized (plugin w) \<Longrightarrow> m_initialized (plugin (run cs w))"
proof (induction cs arbitrary: w)
  case Nil
  then show ?case by simp
next
  case (Cons c cs)
  from Cons.prems have "m_initialized (plugin (snd (invoke c w)))"
    by (rule invoke_keeps_flag)
  then have "m_initialized (plugin (run cs (snd (invoke c w))))"
    by (rule Cons.IH)
  then show ?case by simp
qed

lemma run_append: "run (cs @ ds) w = run ds (run cs w)"
  by (induction cs arbitrary: w) simp_all

subsection \<open>Initialisation\<close>

text \<open>
  C1. \<open>initialize\<close> is idempotent. After a first call, with any argument and from any
  state, the flag is set, so a second call with any argument takes the early return: it
  leaves the plugin object exactly as the first call left it. The same holds for the
  calls made through \<open>invoke\<close>, where the heap is untouched as well.
\<close>

theorem initialize_idempotent:
  "m_initialized (initialize c1 p)
   \<and> initialize c2 (initialize c1 p) = initialize c1 p
   \<and> invoke (Initialize c2) (snd (invoke (Initialize c1) w))
       = (RVoid, snd (invoke (Initialize c1) w))"
proof -
  have set: "m_initialized (initialize c1 q)" for q
    by (rule initialize_sets_flag)
  have again: "initialize c2 (initialize c1 q) = initialize c1 q" for q
    using set [of q] by (rule initialize_when_set)
  show ?thesis
    by (simp add: set again)
qed

text \<open>
  C2. After \<open>initialize\<close>, from any state and with any argument, \<open>isInitialized\<close>
  returns true. On the object the constructor makes, before any call of \<open>initialize\<close>,
  it returns the initial value of the flag.
\<close>

theorem isInitialized_after_initialize:
  "isInitialized (initialize core p)
   \<and> fst (invoke IsInitialized (snd (invoke (Initialize core) w))) = RBool True
   \<and> isInitialized (menuPlugin_ctor init parent) = init"
  by (simp add: isInitialized_def initialize_sets_flag menuPlugin_ctor_def)

text \<open>
  C3. The flag is never cleared. Take any state and any sequence of calls \<open>cs\<close> of the
  plugin's methods after which the flag is set: whatever calls \<open>ds\<close> follow, the flag is
  set after them too.
\<close>

theorem m_initialized_never_cleared:
  "m_initialized (plugin (run cs w)) \<Longrightarrow> m_initialized (plugin (run (cs @ ds) w))"
  unfolding run_append by (rule run_keeps_flag)

theorem m_initialized_never_cleared_witness:
  "m_initialized (plugin (run [IsInitialized, Initialize None]
      \<lparr>plugin = menuPlugin_ctor False None, heap = []\<rparr>))
   \<and> m_initialized (plugin (run ([IsInitialized, Initialize None]
        @ [CreateWidget None, Name, Initialize (Some 7), Icon, DomXml, IsContainer])
      \<lparr>plugin = menuPlugin_ctor False None, heap = []\<rparr>))"
proof -
  have first: "m_initialized (plugin (run [IsInitialized, Initialize None]
      \<lparr>plugin = menuPlugin_ctor False None, heap = []\<rparr>))"
    by (simp add: initialize_def menuPlugin_ctor_def)
  from first m_initialized_never_cleared [OF first] show ?thesis
    by (rule conjI)
qed

text \<open>
  C8. The state \<open>initialize\<close> leaves does not depend on its argument: from the same
  state, two calls with different arguments give the same object, and through
  \<open>invoke\<close> the same return value and the same state.
\<close>

theorem initialize_ignores_core:
  "initialize c1 p = initialize c2 p
   \<and> invoke (Initialize c1) w = invoke (Initialize c2) w"
proof -
  have "initialize c1 q = initialize c2 q" for q
    unfolding initialize_def ..
  then show ?thesis by simp
qed

subsection \<open>The accessors\<close>

text \<open>
  C4. Each of \<open>name\<close>, \<open>group\<close>, \<open>icon\<close>, \<open>toolTip\<close>, \<open>whatsThis\<close>,
  \<open>isContainer\<close>, \<open>domXml\<close> and \<open>includeFile\<close> returns the same value on any two
  plugin objects \<open>p\<close> and \<open>q\<close>, whatever their flags and whatever calls produced them.
\<close>

theorem accessors_constant:
  "name p = name q \<and> group p = group q \<and> icon p = icon q
   \<and> toolTip p = toolTip q \<and> whatsThis p = whatsThis q
   \<and> isContainer p = isContainer q \<and> domXml p = domXml q
   \<and> includeFile p = includeFile q"
  unfolding name_def group_def icon_def toolTip_def whatsThis_def isContainer_def
    domXml_def includeFile_def
  by (intro conjI refl)

text \<open>
  C6. The metadata names the widget class menu: \<open>name\<close> returns "menu",
  \<open>includeFile\<close> returns "menu.h", and \<open>domXml\<close> returns the text of a \<open>widget\<close>
  element whose attributes are class "menu" and name "menu", with a line feed as body.
\<close>

theorem metadata_identifies_menu:
  "name p = ''menu''
   \<and> domXml p = xml_element ''widget'' [(''class'', ''menu''), (''name'', ''menu'')] ''\<newline>''
   \<and> includeFile p = ''menu.h''"
  by (simp add: name_def domXml_def includeFile_def xml_element_def xml_attribute_def)

text \<open>
  C7. The accessors and \<open>isInitialized\<close> change nothing: a call of any of them returns
  the state it was given, plugin object and heap alike.
\<close>

theorem accessors_pure:
  "snd (invoke IsInitialized w) = w \<and> snd (invoke Name w) = w
   \<and> snd (invoke Group w) = w \<and> snd (invoke Icon w) = w
   \<and> snd (invoke ToolTip w) = w \<and> snd (invoke WhatsThis w) = w
   \<and> snd (invoke IsContainer w) = w \<and> snd (invoke DomXml w) = w
   \<and> snd (invoke IncludeFile w) = w"
  by simp

text \<open>C9. \<open>isContainer\<close> returns false in every state, after any sequence of calls.\<close>

theorem isContainer_false:
  "\<not> isContainer p \<and> fst (invoke IsContainer (run cs w)) = RBool False"
  by (simp add: isContainer_def)

text \<open>
  C10. The optional display metadata is empty in every state: \<open>group\<close>, \<open>toolTip\<close>
  and \<open>whatsThis\<close> return the empty string, and \<open>icon\<close> returns the default-constructed
  icon, which is null.
\<close>

theorem display_metadata_empty:
  "group p = [] \<and> toolTip p = [] \<and> whatsThis p = []
   \<and> icon p = QIcon_default \<and> isNull (icon p)"
  by (simp add: group_def toolTip_def whatsThis_def icon_def QIcon_default_def isNull_def)

subsection \<open>The factory method\<close>

text \<open>
  C5. For every parent pointer, \<open>createWidget\<close> returns a pointer to a new object: the
  address was not allocated before the call, and after the call it holds a widget of class
  menu whose parent is the pointer the caller gave. The objects allocated before are as
  they were, and the plugin object, its flag included, is unchanged.
\<close>

theorem createWidget_new_menu:
  "(case createWidget parent w of (q, w') \<Rightarrow>
      deref (heap w) q = None
      \<and> deref (heap w') q = Some \<lparr>widget_class = ''menu'', widget_parent = parent\<rparr>
      \<and> heap w' = heap w @ [menu parent]
      \<and> plugin w' = plugin w
      \<and> m_initialized (plugin w') = m_initialized (plugin w))"
  by (simp add: createWidget_def op_new_def deref_def menu_def)

end
